theory Spec2Isabelle
  imports Main
begin

section \<open>The tool catalog (src/constants.ts)\<close>

text \<open>
  Strings are \<open>char list\<close>s. The catalog is copied from the source; field names that
  would clash between the records carry a prefix (\<open>cat_\<close>, \<open>tool_\<close>, \<open>res_\<close>).
\<close>

record Category =
  cat_id :: string
  cat_name :: string
  icon :: string

definition TOOL_CATEGORIES :: "Category list" where
  "TOOL_CATEGORIES =
    [\<lparr>cat_id = ''leadership'', cat_name = ''Executive'', icon = ''fa-building''\<rparr>,
     \<lparr>cat_id = ''teacher'', cat_name = ''Educators'', icon = ''fa-chalkboard-user''\<rparr>,
     \<lparr>cat_id = ''admin'', cat_name = ''Operations'', icon = ''fa-briefcase''\<rparr>,
     \<lparr>cat_id = ''learner'', cat_name = ''Development'', icon = ''fa-graduation-cap''\<rparr>]"

datatype model_tier = Flash | Pro

record ToolConfig =
  tool_id :: string
  categoryId :: string
  tool_name :: string
  basePrompt :: string
  examplePrompt :: string
  description :: string
  modelTier :: model_tier

definition strategy_toolkit :: ToolConfig where
  "strategy_toolkit =
    \<lparr>tool_id = ''strategy-toolkit'',
     categoryId = ''leadership'',
     tool_name = ''Strategic Roadmap'',
     basePrompt = ''Draft a high-level strategic roadmap or executive memo. Treat the Principal as a CEO. Use corporate management frameworks (SWOT, OKRs) applied to education.'',
     examplePrompt = ''Scenario: transitioning a traditional school to a digital-first curriculum over 24 months with limited budget.'',
     description = ''Corporate-grade strategic planning and change management frameworks.'',
     modelTier = Pro\<rparr>"

definition sgb_governance :: ToolConfig where
  "sgb_governance =
    \<lparr>tool_id = ''sgb-governance'',
     categoryId = ''leadership'',
     tool_name = ''Governance & Compliance'',
     basePrompt = ''Draft a formal governance policy or resolution. Ensure strict adherence to South African legal frameworks and corporate governance best practices.'',
     examplePrompt = ''Draft a Conflict of Interest policy for the School Governing Body members.'',
     description = ''Legally sound policy drafting for Governing Bodies.'',
     modelTier = Pro\<rparr>"

definition lesson_plan :: ToolConfig where
  "lesson_plan =
    \<lparr>tool_id = ''lesson-plan'',
     categoryId = ''teacher'',
     tool_name = ''Curriculum Architect'',
     basePrompt = ''Design a comprehensive, high-fidelity lesson plan. Focus on innovative pedagogy, differentiation strategies, and measurable outcomes.'',
     examplePrompt = ''Grade 11 Physical Sciences: Intermolecular Forces. 60-minute active learning session.'',
     description = ''High-fidelity, CAPS-aligned instructional design.'',
     modelTier = Pro\<rparr>"

definition assessment_gen :: ToolConfig where
  "assessment_gen =
    \<lparr>tool_id = ''assessment-gen'',
     categoryId = ''teacher'',
     tool_name = ''Assessment Engine'',
     basePrompt = ''Create a formal assessment instrument with a marking matrix and cognitive level analysis (Bloom's).'',
     examplePrompt = ''Grade 10 Business Studies: Creative Thinking and Problem Solving. Case study based assessment.'',
     description = ''Bloom's Taxonomy aligned testing instruments.'',
     modelTier = Flash\<rparr>"

definition parent_comms :: ToolConfig where
  "parent_comms =
    \<lparr>tool_id = ''parent-comms'',
     categoryId = ''admin'',
     tool_name = ''Stakeholder Comms'',
     basePrompt = ''Draft a professional stakeholder communication. Tone should be reassuring, clear, and authoritative yet empathetic.'',
     examplePrompt = ''Urgent notice regarding a change in exam timetables due to unforeseen circumstances.'',
     description = ''Professional crisis and routine communication generator.'',
     modelTier = Flash\<rparr>"

definition fundraising_pro :: ToolConfig where
  "fundraising_pro =
    \<lparr>tool_id = ''fundraising-pro'',
     categoryId = ''admin'',
     tool_name = ''Capital Raising'',
     basePrompt = ''Write a persuasive corporate sponsorship proposal. Focus on CSI (Corporate Social Investment) benefits and tangible ROI for the sponsor.'',
     examplePrompt = ''Proposal to a telecommunications company to sponsor fibre internet installation.'',
     description = ''Corporate sponsorship proposals and grant applications.'',
     modelTier = Pro\<rparr>"

definition study_guide :: ToolConfig where
  \<open>study_guide =
    \<lparr>tool_id = ''study-guide'',
     categoryId = ''learner'',
     tool_name = ''Knowledge Synthesizer'',
     basePrompt = ''Synthesize complex curriculum topics into high-impact "Cheat Sheets" or summaries. Use mnemonics and clear structure.'',
     examplePrompt = ''Grade 12 History: The collapse of the USSR. Key timeline and causes.'',
     description = ''Rapid revision summaries and concept maps.'',
     modelTier = Flash\<rparr>\<close>

definition TOOLS_CONFIG :: "ToolConfig list" where
  "TOOLS_CONFIG =
    [strategy_toolkit, sgb_governance, lesson_plan, assessment_gen,
     parent_comms, fundraising_pro, study_guide]"

section \<open>String operations of the host language\<close>

text \<open>
  \<open>String.prototype.includes\<close>: does \<open>sub\<close> occur as a contiguous piece of \<open>s\<close>?
\<close>

fun starts_with :: "string \<Rightarrow> string \<Rightarrow> bool" where
  "starts_with s [] = True"
| "starts_with [] (c # cs) = False"
| "starts_with (d # ds) (c # cs) = (d = c \<and> starts_with ds cs)"

fun includes_str :: "string \<Rightarrow> string \<Rightarrow> bool" where
  "includes_str [] sub = (sub = [])"
| "includes_str (c # cs) sub = (starts_with (c # cs) sub \<or> includes_str cs sub)"

text \<open>
  \<open>String.prototype.trim\<close> removes white space and line terminators from both ends.
  Over \<open>char\<close> these are tab, line feed, vertical tab, form feed, carriage return,
  space and no-break space.
\<close>

definition is_space :: "char \<Rightarrow> bool" where
  "is_space c =
     (c \<in> set [CHR 0x09, CHR 0x0A, CHR 0x0B, CHR 0x0C, CHR 0x0D, CHR 0x20, CHR 0xA0])"

definition trimStart :: "string \<Rightarrow> string" where
  "trimStart s = dropWhile is_space s"

definition trimEnd :: "string \<Rightarrow> string" where
  "trimEnd s = rev (dropWhile is_space (rev s))"

definition trim :: "string \<Rightarrow> string" where
  "trim s = trimEnd (trimStart s)"

text \<open>
  \<open>Number.prototype.toString\<close> on an integer reading of the clock: decimal digits,
  with a minus sign below zero.
\<close>

definition digit_char :: "nat \<Rightarrow> char" where
  "digit_char d = char_of (48 + d)"

fun nat_digits :: "nat \<Rightarrow> string" where
  "nat_digits n =
     (if n < 10 then [digit_char n] else nat_digits (n div 10) @ [digit_char (n mod 10)])"

declare nat_digits.simps [simp del]

definition toString :: "int \<Rightarrow> string" where
  "toString i =
     (if i < 0 then CHR ''-'' # nat_digits (nat (- i)) else nat_digits (nat i))"

section \<open>The prompt composer (handleGenerate, lines 121-138)\<close>

definition systemInstruction :: string where
  "systemInstruction = trim
     (''\<newline>        You are Wisian, the proprietary AI engine of Wisian Corporation.'' @
      ''\<newline>        Your mission is to democratize high-tier corporate intelligence for the South African education sector.'' @
      ''\<newline>        Guidelines:'' @
      ''\<newline>        - Output MUST be structured, professional, and authoritative.'' @
      ''\<newline>        - Use South African English spelling and terminology.'' @
      ''\<newline>        - Format as a high-end consultancy deliverable.'' @
      ''\<newline>      '')"

text \<open>\<open>promptInput || 'Standard operating procedure.'\<close>: only the empty string is falsy.\<close>

definition context_or_default :: "string \<Rightarrow> string" where
  "context_or_default promptInput =
     (if promptInput = [] then ''Standard operating procedure.'' else promptInput)"

definition userPrompt :: "ToolConfig \<Rightarrow> string \<Rightarrow> string" where
  "userPrompt selectedTool promptInput = trim
     (''\<newline>        **Directive:** Execute the following task using the '' @ tool_name selectedTool @ '' module.'' @
      ''\<newline>        **Context:** '' @ context_or_default promptInput @
      ''\<newline>        **Core Task:** '' @ basePrompt selectedTool @
      ''\<newline>      '')"

definition modelName :: "ToolConfig \<Rightarrow> string" where
  "modelName selectedTool =
     (if modelTier selectedTool = Pro then ''gemini-3-pro-preview'' else ''gemini-3-flash-preview'')"

section \<open>Application state and its surroundings (src/index.tsx)\<close>

record SavedResource =
  res_id :: string
  toolName :: string
  categoryName :: string
  content :: string
  timestamp :: int

datatype api_status = Online | ApiError | Idle

text \<open>
  A thrown value, as far as the handlers look at it: its \<open>message\<close>, absent when the
  value has none (\<open>error?.message\<close>).
\<close>

datatype failure = Failure (message: "string option")

text \<open>
  The text stored under the key \<open>wisian_history\<close>, seen through \<open>JSON.parse\<close>: either
  text that \<open>JSON.parse\<close> rejects with a SyntaxError (the text itself is kept, since the
  loader tests it for emptiness first), or text that parses to the given array, which is
  what \<open>JSON.stringify\<close> writes for that array.
\<close>

datatype stored_text = Malformed string | Encoded "SavedResource list"

datatype log_entry =
    ParseHistoryFailed
  | AuthFailed failure
  | GenerationError failure

text \<open>
  The argument of \<open>generateContentStream\<close>: the model, the turns (role and text parts)
  and the system instruction. The configuration's \<open>temperature\<close> is the constant 0.6
  in every request and is not carried along.
\<close>

record request =
  req_model :: string
  req_contents :: "(string \<times> string list) list"
  req_systemInstruction :: string

text \<open>
  The state cells of \<open>App\<close>, the stored item, and what an observer outside sees: every
  value passed to \<open>setOutput\<close> and to \<open>setApiStatus\<close> in call order, every streaming
  request handed to the generative service, and the console.
\<close>

record state =
  activeCategory :: string
  selectedTool :: ToolConfig
  promptInput :: string
  isGenerating :: bool
  "output" :: string
  savedResources :: "SavedResource list"
  apiStatus :: api_status
  hasAccess :: bool
  wisian_history :: "stored_text option"
  published :: "string list"
  gate_trace :: "api_status list"
  requests :: "request list"
  console :: "log_entry list"

text \<open>
  How a call ends: it returns (an awaited promise is fulfilled), or it throws (the
  promise is rejected).
\<close>

datatype outcome = Normal | Throws failure

text \<open>
  The host's optional credential capability \<open>window.aistudio\<close>: what
  \<open>hasSelectedApiKey\<close> answers and how the promise of \<open>openSelectKey\<close> settles.
\<close>

record aistudio_host =
  hasSelectedApiKey :: bool
  openSelectKey :: outcome

text \<open>
  What the generative service does with the attempt: constructing the client throws,
  the streaming call throws, or a stream delivers increments and then either closes or
  faults. Each increment carries its \<open>text\<close>, a string, here \<open>chunk_text\<close>.
\<close>

datatype chunk = Chunk (chunk_text: string)

datatype stream_end = Closed | Faulted failure

datatype response =
    ClientFails failure
  | IssueFails failure
  | Stream "chunk list" stream_end

text \<open>
  What surrounds one run of a handler: \<open>process.env.API_KEY\<close>, the host capability if
  there is one, the behaviour of the service, and the two readings of \<open>Date.now()\<close>
  taken for the entry's id (line 156) and its timestamp (line 160).
\<close>

record env =
  API_KEY :: "string option"
  aistudio :: "aistudio_host option"
  service :: response
  now_id :: int
  now_timestamp :: int

text \<open>Truthiness of an optional string: \<open>undefined\<close> and the empty string are falsy.\<close>

definition truthy_str :: "string option \<Rightarrow> bool" where
  "truthy_str v = (case v of None \<Rightarrow> False | Some s \<Rightarrow> s \<noteq> [])"

definition setOutput :: "string \<Rightarrow> state \<Rightarrow> state" where
  "setOutput v s = s\<lparr>output := v, published := published s @ [v]\<rparr>"

definition setApiStatus :: "api_status \<Rightarrow> state \<Rightarrow> state" where
  "setApiStatus v s = s\<lparr>apiStatus := v, gate_trace := gate_trace s @ [v]\<rparr>"

text \<open>
  The effect of lines 72-74 runs after every change of \<open>savedResources\<close> and writes the
  whole array under the key.
\<close>

definition setSavedResources :: "SavedResource list \<Rightarrow> state \<Rightarrow> state" where
  "setSavedResources v s = s\<lparr>savedResources := v, wisian_history := Some (Encoded v)\<rparr>"

section \<open>Startup: the mount effects (lines 26-74)\<close>

definition initial_state :: "stored_text option \<Rightarrow> state" where
  "initial_state stored =
     \<lparr>activeCategory = cat_id (TOOL_CATEGORIES ! 0),
      selectedTool = TOOLS_CONFIG ! 0,
      promptInput = [],
      isGenerating = False,
      output = [],
      savedResources = [],
      apiStatus = Idle,
      hasAccess = False,
      wisian_history = stored,
      published = [],
      gate_trace = [],
      requests = [],
      console = []\<rparr>"

text \<open>
  \<open>if (history)\<close>: the empty text is falsy, as is the \<open>null\<close> that \<open>getItem\<close> returns
  for a missing item. Text that parses is never empty.
\<close>

definition truthy_text :: "stored_text \<Rightarrow> bool" where
  "truthy_text t = (case t of Malformed raw \<Rightarrow> raw \<noteq> [] | Encoded v \<Rightarrow> True)"

text \<open>\<open>JSON.parse\<close>: \<open>None\<close> stands for the SyntaxError it throws.\<close>

definition JSON_parse :: "stored_text \<Rightarrow> SavedResource list option" where
  "JSON_parse t = (case t of Malformed raw \<Rightarrow> None | Encoded v \<Rightarrow> Some v)"

text \<open>
  Lines 41-48. The parsed value goes into \<open>savedResources\<close> as it is. The result says
  whether anything was thrown past the \<open>try\<close>.
\<close>

definition load_history :: "state \<Rightarrow> outcome \<times> state" where
  "load_history s =
     (case wisian_history s of
        None \<Rightarrow> (Normal, s)
      | Some history \<Rightarrow>
          if truthy_text history then
            (case JSON_parse history of
               Some parsed \<Rightarrow> (Normal, s\<lparr>savedResources := parsed\<rparr>)
             | None \<Rightarrow> (Normal, s\<lparr>console := console s @ [ParseHistoryFailed]\<rparr>))
          else (Normal, s))"

text \<open>\<open>checkAuth\<close>, lines 50-62; \<open>hasSelectedApiKey\<close> is taken to answer.\<close>

definition checkAuth :: "env \<Rightarrow> state \<Rightarrow> state" where
  "checkAuth e s =
     (case aistudio e of
        Some host \<Rightarrow>
          (let hasKey = hasSelectedApiKey host in
           setApiStatus (if hasKey then Online else Idle) (s\<lparr>hasAccess := hasKey\<rparr>))
      | None \<Rightarrow>
          (let hasKey = truthy_str (API_KEY e) in
           setApiStatus (if hasKey then Online else ApiError) (s\<lparr>hasAccess := hasKey\<rparr>)))"

definition select_first_of_category :: "state \<Rightarrow> state" where
  "select_first_of_category s =
     (case find (\<lambda>t. categoryId t = activeCategory s) TOOLS_CONFIG of
        Some firstOfCat \<Rightarrow> s\<lparr>selectedTool := firstOfCat\<rparr>
      | None \<Rightarrow> s)"

text \<open>
  The save effect runs on mount with the empty array of the first render and again once
  the loaded array has become the state, so the item ends as the encoding of the state.
  Effects run once per mount, as in a production build.
\<close>

definition save_history :: "state \<Rightarrow> state" where
  "save_history s = s\<lparr>wisian_history := Some (Encoded (savedResources s))\<rparr>"

definition App_mount :: "env \<Rightarrow> stored_text option \<Rightarrow> outcome \<times> state" where
  "App_mount e stored =
     (case load_history (initial_state stored) of
        (Throws f, s) \<Rightarrow> (Throws f, s)
      | (Normal, s) \<Rightarrow> (Normal, save_history (select_first_of_category (checkAuth e s))))"

section \<open>The history vault (lines 162, 241-246)\<close>

text \<open>\<open>setSavedResources(prev => [newResource, ...prev].slice(0, 15))\<close>\<close>

definition record_resource :: "SavedResource \<Rightarrow> state \<Rightarrow> state" where
  "record_resource newResource s =
     setSavedResources (take 15 (newResource # savedResources s)) s"

text \<open>
  \<open>clearHistory\<close>: after the user confirms, the array is emptied and the item removed;
  the save effect then writes the empty array back under the key.
\<close>

definition clearHistory :: "bool \<Rightarrow> state \<Rightarrow> state" where
  "clearHistory confirmed s =
     (if confirmed then setSavedResources [] (s\<lparr>wisian_history := None\<rparr>) else s)"

definition loadFromHistory :: "SavedResource \<Rightarrow> state \<Rightarrow> state" where
  "loadFromHistory resource s = setOutput (content resource) s"

section \<open>The credential gate: handleAuth (lines 78-100)\<close>

text \<open>
  Here the awaited \<open>openSelectKey\<close> is inside a \<open>try\<close>: a rejection is logged and sets
  the status. Without the capability and without a key the handler only alerts.
\<close>

definition handleAuth :: "env \<Rightarrow> state \<Rightarrow> state" where
  "handleAuth e s =
     (case aistudio e of
        Some host \<Rightarrow>
          (case openSelectKey host of
             Normal \<Rightarrow> setApiStatus Online (s\<lparr>hasAccess := True\<rparr>)
           | Throws f \<Rightarrow> setApiStatus ApiError (s\<lparr>console := console s @ [AuthFailed f]\<rparr>))
      | None \<Rightarrow>
          (if truthy_str (API_KEY e) then setApiStatus Online (s\<lparr>hasAccess := True\<rparr>) else s))"

section \<open>The streaming session controller: handleGenerate (lines 102-182)\<close>

definition access_denied :: string where
  "access_denied = ''### Access Denied\<newline>Wisian Corporation Protocol: Please authenticate to access the intelligence engine.''"

definition authentication_failed :: string where
  "authentication_failed = ''### Authentication Failed\<newline>Security Protocol: API Key invalid or missing. Please reconnect.''"

definition network_interruption :: string where
  "network_interruption = ''### Network Interruption\<newline>The Wisian Link is experiencing latency. Retrying connection...''"

text \<open>\<open>error?.message?.includes(sub)\<close>: falsy when there is no message.\<close>

definition message_includes :: "failure \<Rightarrow> string \<Rightarrow> bool" where
  "message_includes f sub = (case message f of None \<Rightarrow> False | Some m \<Rightarrow> includes_str m sub)"

text \<open>
  Lines 149-153: the loop over the increments delivered before the stream ends.
  It returns the accumulator with the state.
\<close>

fun consume :: "chunk list \<Rightarrow> string \<Rightarrow> state \<Rightarrow> string \<times> state" where
  "consume [] accumulated s = (accumulated, s)"
| "consume (c # cs) accumulated s =
     (let accumulated' = accumulated @ chunk_text c in
      consume cs accumulated' (setOutput accumulated' s))"

definition categoryName_of :: "string \<Rightarrow> string" where
  "categoryName_of active =
     (case find (\<lambda>c. cat_id c = active) TOOL_CATEGORIES of
        Some c \<Rightarrow> (if cat_name c = [] then [] else cat_name c)
      | None \<Rightarrow> [])"

definition newResource :: "env \<Rightarrow> state \<Rightarrow> string \<Rightarrow> SavedResource" where
  "newResource e s accumulated =
     \<lparr>res_id = toString (now_id e),
      toolName = tool_name (selectedTool s),
      categoryName = categoryName_of (activeCategory s),
      content = accumulated,
      timestamp = now_timestamp e\<rparr>"

definition generation_request :: "state \<Rightarrow> request" where
  "generation_request s =
     \<lparr>req_model = modelName (selectedTool s),
      req_contents = [(''user'', [userPrompt (selectedTool s) (promptInput s)])],
      req_systemInstruction = systemInstruction\<rparr>"

text \<open>
  Lines 119-162, the body of the \<open>try\<close>. The first component is the value thrown out
  of it, if any.
\<close>

definition try_block :: "env \<Rightarrow> state \<Rightarrow> failure option \<times> state" where
  "try_block e s =
     (case service e of
        ClientFails f \<Rightarrow> (Some f, s)
      | IssueFails f \<Rightarrow> (Some f, s\<lparr>requests := requests s @ [generation_request s]\<rparr>)
      | Stream chunks ending \<Rightarrow>
          (case consume chunks [] (s\<lparr>requests := requests s @ [generation_request s]\<rparr>) of
             (accumulated, s') \<Rightarrow>
               (case ending of
                  Faulted f \<Rightarrow> (Some f, s')
                | Closed \<Rightarrow> (None, record_resource (newResource e s' accumulated) s'))))"

text \<open>
  Lines 166-174: the reset of the key selection. The awaited \<open>openSelectKey\<close> stands
  directly in the \<open>catch\<close>, so its rejection is thrown on from there.
\<close>

definition reset_key_selection :: "env \<Rightarrow> failure \<Rightarrow> state \<Rightarrow> failure option \<times> state" where
  "reset_key_selection e error s =
     (if message_includes error ''Requested entity was not found'' then
        (let s' = setApiStatus ApiError (s\<lparr>hasAccess := False\<rparr>) in
         case aistudio e of
           None \<Rightarrow> (None, s')
         | Some host \<Rightarrow>
             (case openSelectKey host of
                Throws f \<Rightarrow> (Some f, s')
              | Normal \<Rightarrow> (None, setApiStatus Online (s'\<lparr>hasAccess := True\<rparr>))))
      else (None, s))"

text \<open>Lines 163-178, the \<open>catch\<close>; the first component is what it throws on, if anything.\<close>

definition catch_block :: "env \<Rightarrow> failure \<Rightarrow> state \<Rightarrow> failure option \<times> state" where
  "catch_block e error s =
     (case reset_key_selection e error (s\<lparr>console := console s @ [GenerationError error]\<rparr>) of
        (Some f, s') \<Rightarrow> (Some f, s')
      | (None, s') \<Rightarrow>
          (let msg = (if message_includes error ''API_KEY''
                      then authentication_failed else network_interruption)
           in (None, setOutput msg s')))"

text \<open>
  The whole handler; \<open>finally\<close> clears the indicator on every way out of the \<open>try\<close>.
  The outcome is how the handler's promise settles: \<open>Throws\<close> is a rejection that
  nothing handles.
\<close>

definition handleGenerate :: "env \<Rightarrow> state \<Rightarrow> outcome \<times> state" where
  "handleGenerate e s =
     (if isGenerating s then (Normal, s)
      else if \<not> hasAccess s \<and> \<not> truthy_str (API_KEY e) then (Normal, setOutput access_denied s)
      else
        (let s1 = setOutput [] (s\<lparr>isGenerating := True\<rparr>) in
         case try_block e s1 of
           (None, s2) \<Rightarrow> (Normal, s2\<lparr>isGenerating := False\<rparr>)
         | (Some error, s2) \<Rightarrow>
             (case catch_block e error s2 of
                (None, s3) \<Rightarrow> (Normal, s3\<lparr>isGenerating := False\<rparr>)
              | (Some f, s3) \<Rightarrow> (Throws f, s3\<lparr>isGenerating := False\<rparr>))))"

section \<open>Notions used in the statements\<close>

text \<open>What the \<open>try\<close> of \<open>handleGenerate\<close> throws, read off the service's behaviour.\<close>

definition thrown_by :: "response \<Rightarrow> failure option" where
  "thrown_by r =
     (case r of
        ClientFails f \<Rightarrow> Some f
      | IssueFails f \<Rightarrow> Some f
      | Stream chunks Closed \<Rightarrow> None
      | Stream chunks (Faulted f) \<Rightarrow> Some f)"

text \<open>A string that \<open>trim\<close> leaves alone at its end.\<close>

definition solid_end :: "string \<Rightarrow> bool" where
  "solid_end s = (s \<noteq> [] \<and> \<not> is_space (last s))"

text \<open>
  The user's actions on the page, each with what the host does at that moment, and a
  relaunch of the page over the item as the previous session left it. The effect of
  lines 66-69 selects the category's first tool only when the active category changes.
\<close>

datatype event =
    Generate env
  | Authenticate env
  | ClearHistory bool
  | LoadFromHistory SavedResource
  | SetPromptInput string
  | SetActiveCategory string
  | SetSelectedTool ToolConfig
  | Relaunch env

fun step :: "event \<Rightarrow> state \<Rightarrow> state" where
  "step (Generate e) s = snd (handleGenerate e s)"
| "step (Authenticate e) s = handleAuth e s"
| "step (ClearHistory confirmed) s = clearHistory confirmed s"
| "step (LoadFromHistory resource) s = loadFromHistory resource s"
| "step (SetPromptInput v) s = s\<lparr>promptInput := v\<rparr>"
| "step (SetActiveCategory c) s =
     (if c = activeCategory s then s
      else select_first_of_category (s\<lparr>activeCategory := c\<rparr>))"
| "step (SetSelectedTool t) s = s\<lparr>selectedTool := t\<rparr>"
| "step (Relaunch e) s = snd (App_mount e (wisian_history s))"

fun run :: "event list \<Rightarrow> state \<Rightarrow> state" where
  "run [] s = s"
| "run (ev # evs) s = run evs (step ev s)"

text \<open>The item holds no array longer than the vault's capacity.\<close>

definition stored_within_cap :: "stored_text option \<Rightarrow> bool" where
  "stored_within_cap stored =
     (case stored of Some (Encoded v) \<Rightarrow> length v \<le> 15 | Some (Malformed raw) \<Rightarrow> True | None \<Rightarrow> True)"

section \<open>Sample inputs\<close>

definition ready_state :: state where
  "ready_state = (initial_state None)\<lparr>hasAccess := True, apiStatus := Online\<rparr>"

definition busy_state :: state where
  "busy_state = (initial_state None)\<lparr>isGenerating := True, output := ''Hello ''\<rparr>"

definition sample_resource :: SavedResource where
  "sample_resource =
     \<lparr>res_id = ''1700'', toolName = ''Strategic Roadmap'', categoryName = ''Executive'',
      content = ''Hello World'', timestamp = 1700\<rparr>"

definition hello_env :: env where
  "hello_env =
     \<lparr>API_KEY = Some ''key'', aistudio = None,
      service = Stream [Chunk ''Hello '', Chunk ''World''] Closed,
      now_id = 1700, now_timestamp = 1701\<rparr>"

definition no_key_env :: env where
  "no_key_env =
     \<lparr>API_KEY = None, aistudio = None,
      service = Stream [Chunk ''Hello '', Chunk ''World''] Closed,
      now_id = 1700, now_timestamp = 1701\<rparr>"

definition entity_not_found :: failure where
  "entity_not_found = Failure (Some ''Requested entity was not found.'')"

definition selection_cancelled :: failure where
  "selection_cancelled = Failure (Some ''Selection cancelled'')"

definition stale_key_env :: env where
  "stale_key_env =
     \<lparr>API_KEY = Some ''key'',
      aistudio = Some \<lparr>hasSelectedApiKey = True, openSelectKey = Normal\<rparr>,
      service = Stream [Chunk ''Hello ''] (Faulted entity_not_found),
      now_id = 1700, now_timestamp = 1701\<rparr>"

definition rejecting_host_env :: env where
  "rejecting_host_env =
     \<lparr>API_KEY = Some ''key'',
      aistudio = Some \<lparr>hasSelectedApiKey = True, openSelectKey = Throws selection_cancelled\<rparr>,
      service = Stream [Chunk ''Hello ''] (Faulted entity_not_found),
      now_id = 1700, now_timestamp = 1701\<rparr>"

section \<open>Strings\<close>

lemma trimEnd_after_solid:
  assumes "\<not> is_space c"
  shows "trimEnd (p @ c # q) = p @ c # trimEnd q"
proof (cases "\<forall>x \<in> set q. is_space x")
  case True
  then have "dropWhile is_space (rev q) = []" by simp
  moreover have "dropWhile is_space (rev q @ c # rev p) = c # rev p"
    using True assms by (simp add: dropWhile_append)
  ultimately show ?thesis by (simp add: trimEnd_def)
next
  case False
  then have "dropWhile is_space (rev q @ c # rev p) = dropWhile is_space (rev q) @ c # rev p"
    by (auto simp: dropWhile_append)
  then show ?thesis by (simp add: trimEnd_def)
qed

lemma trimStart_indent:
  "trimStart (''\<newline>        '' @ CHR ''*'' # rest) = CHR ''*'' # rest"
  by (simp add: trimStart_def is_space_def)

lemma userPrompt_layout:
  "userPrompt tool ctx =
     ''**Directive:** Execute the following task using the '' @ tool_name tool @ '' module.'' @
     ''\<newline>        **Context:** '' @ (if ctx = [] then ''Standard operating procedure.'' else ctx) @
     ''\<newline>        **Core Task:**'' @ trimEnd ('' '' @ basePrompt tool @ ''\<newline>      '')"
proof -
  let ?d = "''*Directive:** Execute the following task using the '' @ tool_name tool @ '' module.'' @
     ''\<newline>        **Context:** '' @ context_or_default ctx @ ''\<newline>        **Core Task:*''"
  let ?q = "'' '' @ basePrompt tool @ ''\<newline>      ''"
  have "userPrompt tool ctx = trimEnd (trimStart (''\<newline>        '' @ CHR ''*'' # (?d @ CHR ''*'' # ?q)))"
    by (simp add: userPrompt_def trim_def)
  also have "\<dots> = trimEnd ((CHR ''*'' # ?d) @ CHR ''*'' # ?q)"
    by (simp only: trimStart_indent) simp
  also have "\<dots> = (CHR ''*'' # ?d) @ CHR ''*'' # trimEnd ?q"
    by (rule trimEnd_after_solid) (simp add: is_space_def)
  finally show ?thesis by (simp add: context_or_default_def)
qed

lemma trimEnd_solid_end:
  assumes "s \<noteq> []" and "\<not> is_space (last s)"
  shows "trimEnd (p @ s @ ''\<newline>      '') = p @ s"
proof -
  obtain b c where s: "s = b @ [c]" using assms(1) by (metis append_butlast_last_id)
  have "\<not> is_space c" using assms(2) s by simp
  then have "trimEnd ((p @ b) @ c # ''\<newline>      '') = (p @ b) @ c # trimEnd ''\<newline>      ''"
    by (rule trimEnd_after_solid)
  moreover have "trimEnd ''\<newline>      '' = []"
    by (simp add: trimEnd_def is_space_def)
  ultimately show ?thesis by (simp add: s)
qed

lemma solid_strategy_toolkit: "solid_end (basePrompt strategy_toolkit)"
  by (simp add: solid_end_def strategy_toolkit_def is_space_def)

lemma solid_sgb_governance: "solid_end (basePrompt sgb_governance)"
  by (simp add: solid_end_def sgb_governance_def is_space_def)

lemma solid_lesson_plan: "solid_end (basePrompt lesson_plan)"
  by (simp add: solid_end_def lesson_plan_def is_space_def)

lemma solid_assessment_gen: "solid_end (basePrompt assessment_gen)"
  by (simp add: solid_end_def assessment_gen_def is_space_def)

lemma solid_parent_comms: "solid_end (basePrompt parent_comms)"
  by (simp add: solid_end_def parent_comms_def is_space_def)

lemma solid_fundraising_pro: "solid_end (basePrompt fundraising_pro)"
  by (simp add: solid_end_def fundraising_pro_def is_space_def)

lemma solid_study_guide: "solid_end (basePrompt study_guide)"
  by (simp add: solid_end_def study_guide_def is_space_def)

lemma catalog_basePrompt_solid:
  assumes "t \<in> set TOOLS_CONFIG"
  shows "solid_end (basePrompt t)"
proof -
  from assms have "t = strategy_toolkit \<or> t = sgb_governance \<or> t = lesson_plan \<or>
      t = assessment_gen \<or> t = parent_comms \<or> t = fundraising_pro \<or> t = study_guide"
    by (simp add: TOOLS_CONFIG_def)
  then show ?thesis
    using solid_strategy_toolkit solid_sgb_governance solid_lesson_plan solid_assessment_gen
      solid_parent_comms solid_fundraising_pro solid_study_guide
    by blast
qed

lemma userPrompt_catalog:
  assumes "t \<in> set TOOLS_CONFIG"
  shows "userPrompt t ctx =
     ''**Directive:** Execute the following task using the '' @ tool_name t @ '' module.'' @
     ''\<newline>        **Context:** '' @ (if ctx = [] then ''Standard operating procedure.'' else ctx) @
     ''\<newline>        **Core Task:** '' @ basePrompt t"
proof -
  have "solid_end (basePrompt t)" using assms by (rule catalog_basePrompt_solid)
  then have "trimEnd ('' '' @ basePrompt t @ ''\<newline>      '') = '' '' @ basePrompt t"
    unfolding solid_end_def by (intro trimEnd_solid_end) simp_all
  then show ?thesis by (simp add: userPrompt_layout)
qed

lemma toString_sample:
  "toString 1700 = ''1700'' \<and> toString (- 42) = ''-42'' \<and> toString 0 = ''0''"
  by code_simp

lemma starts_with_iff: "starts_with s sub \<longleftrightarrow> (\<exists>q. s = sub @ q)"
  by (induction s sub rule: starts_with.induct) auto

lemma includes_str_iff: "includes_str s sub \<longleftrightarrow> (\<exists>p q. s = p @ sub @ q)"
proof (induction s)
  case Nil
  then show ?case by simp
next
  case (Cons c cs)
  have "(\<exists>p q. c # cs = p @ sub @ q) \<longleftrightarrow> (\<exists>q. c # cs = sub @ q) \<or> (\<exists>p q. cs = p @ sub @ q)"
  proof
    assume "\<exists>p q. c # cs = p @ sub @ q"
    then obtain p q where pq: "c # cs = p @ sub @ q" by blast
    show "(\<exists>q. c # cs = sub @ q) \<or> (\<exists>p q. cs = p @ sub @ q)"
    proof (cases p)
      case Nil
      then show ?thesis using pq by auto
    next
      case (Cons a p')
      then have "cs = p' @ sub @ q" using pq by simp
      then show ?thesis by blast
    qed
  next
    assume "(\<exists>q. c # cs = sub @ q) \<or> (\<exists>p q. cs = p @ sub @ q)"
    then show "\<exists>p q. c # cs = p @ sub @ q"
    proof
      assume "\<exists>q. c # cs = sub @ q"
      then obtain q where "c # cs = [] @ sub @ q" by auto
      then show ?thesis by blast
    next
      assume "\<exists>p q. cs = p @ sub @ q"
      then obtain p q where "c # cs = (c # p) @ sub @ q" by auto
      then show ?thesis by blast
    qed
  qed
  then show ?case by (simp add: Cons.IH starts_with_iff)
qed

section \<open>The streaming loop and the paths of the handler\<close>

lemma consume_accumulated:
  "fst (consume cs acc s) = acc @ concat (map chunk_text cs)"
  by (induction cs arbitrary: acc s) (simp_all add: Let_def)

lemma map_from_one:
  "map f [Suc 0..<Suc (Suc n)] = f (Suc 0) # map (\<lambda>k. f (Suc k)) [Suc 0..<Suc n]"
proof -
  have "[Suc 0..<Suc (Suc n)] = Suc 0 # map Suc [Suc 0..<Suc n]"
    by (simp only: map_Suc_upt) (simp add: upt_conv_Cons del: upt_Suc)
  then show ?thesis by (simp add: comp_def del: upt_Suc)
qed

lemma consume_published:
  "published (snd (consume cs acc s)) =
     published s @ map (\<lambda>k. acc @ concat (map chunk_text (take k cs))) [1..<Suc (length cs)]"
proof (induction cs arbitrary: acc s)
  case Nil
  then show ?case by simp
next
  case (Cons c cs)
  show ?case
    by (simp add: Let_def Cons.IH setOutput_def map_from_one del: upt_Suc)
qed

lemma consume_output:
  "output (snd (consume cs acc s)) = (if cs = [] then output s else acc @ concat (map chunk_text cs))"
  by (induction cs arbitrary: acc s) (simp_all add: Let_def setOutput_def)

lemma consume_touches:
  "\<exists>out pub. snd (consume cs acc s) = s\<lparr>output := out, published := pub\<rparr>"
proof (induction cs arbitrary: acc s)
  case Nil
  have "s = s\<lparr>output := output s, published := published s\<rparr>" by simp
  then show ?case by (metis consume.simps(1) snd_conv)
next
  case (Cons c cs)
  obtain out pub where
    "snd (consume cs (acc @ chunk_text c) (setOutput (acc @ chunk_text c) s)) =
       (setOutput (acc @ chunk_text c) s)\<lparr>output := out, published := pub\<rparr>"
    using Cons.IH by blast
  then have "snd (consume (c # cs) acc s) = s\<lparr>output := out, published := pub\<rparr>"
    by (simp add: Let_def setOutput_def)
  then show ?case by blast
qed

lemma consume_frame:
  "snd (consume cs acc s) =
     s\<lparr>output := output (snd (consume cs acc s)), published := published (snd (consume cs acc s))\<rparr>"
proof -
  obtain out pub where eq: "snd (consume cs acc s) = s\<lparr>output := out, published := pub\<rparr>"
    using consume_touches by blast
  show ?thesis by (simp add: eq)
qed

lemma record_resource_vault:
  "savedResources (record_resource r s) = r # take 14 (savedResources s)"
  by (simp add: record_resource_def setSavedResources_def)

lemma category_name_found:
  "c \<in> set TOOL_CATEGORIES \<Longrightarrow> categoryName_of (cat_id c) = cat_name c"
  by (auto simp: TOOL_CATEGORIES_def categoryName_of_def)

lemma handleGenerate_admitted:
  assumes "\<not> isGenerating s" and "hasAccess s \<or> truthy_str (API_KEY e)"
  shows "handleGenerate e s =
    (case try_block e (setOutput [] (s\<lparr>isGenerating := True\<rparr>)) of
       (None, s2) \<Rightarrow> (Normal, s2\<lparr>isGenerating := False\<rparr>)
     | (Some error, s2) \<Rightarrow>
         (case catch_block e error s2 of
            (None, s3) \<Rightarrow> (Normal, s3\<lparr>isGenerating := False\<rparr>)
          | (Some f, s3) \<Rightarrow> (Throws f, s3\<lparr>isGenerating := False\<rparr>)))"
  using assms by (auto simp: handleGenerate_def)

lemma handleGenerate_completes:
  assumes idle: "\<not> isGenerating s"
    and guard: "hasAccess s \<or> truthy_str (API_KEY e)"
    and srv: "service e = Stream chunks Closed"
  shows "handleGenerate e s =
    (Normal,
     s\<lparr>isGenerating := False,
       output := concat (map chunk_text chunks),
       published := published s @ [] # map (\<lambda>k. concat (map chunk_text (take k chunks))) [1..<Suc (length chunks)],
       requests := requests s @ [generation_request s],
       savedResources := take 15 (newResource e s (concat (map chunk_text chunks)) # savedResources s),
       wisian_history := Some (Encoded (take 15 (newResource e s (concat (map chunk_text chunks)) # savedResources s)))\<rparr>)"
proof -
  define s1 where "s1 = (setOutput [] (s\<lparr>isGenerating := True\<rparr>))\<lparr>requests := requests s @ [generation_request s]\<rparr>"
  obtain acc s2 where c: "consume chunks [] s1 = (acc, s2)"
    by fastforce
  have acc: "acc = concat (map chunk_text chunks)"
    using consume_accumulated [of chunks "[]" s1] c by simp
  have out: "output s2 = concat (map chunk_text chunks)"
    using consume_output [of chunks "[]" s1] c by (simp add: s1_def setOutput_def)
  have pub: "published s2 = published s @ [] # map (\<lambda>k. concat (map chunk_text (take k chunks))) [1..<Suc (length chunks)]"
    using consume_published [of chunks "[]" s1] c by (simp add: s1_def setOutput_def)
  have fr: "s2 = s1\<lparr>output := output s2, published := published s2\<rparr>"
    using consume_frame [of chunks "[]" s1] c by simp
  have s2: "s2 = s\<lparr>isGenerating := True, output := concat (map chunk_text chunks),
       published := published s @ [] # map (\<lambda>k. concat (map chunk_text (take k chunks))) [1..<Suc (length chunks)],
       requests := requests s @ [generation_request s]\<rparr>"
    by (subst fr) (simp add: out pub s1_def setOutput_def)
  have req: "generation_request (setOutput [] (s\<lparr>isGenerating := True\<rparr>)) = generation_request s"
    by (simp add: generation_request_def setOutput_def)
  have g: "\<not> (\<not> hasAccess s \<and> \<not> truthy_str (API_KEY e))"
    using guard by blast
  have tb: "try_block e (setOutput [] (s\<lparr>isGenerating := True\<rparr>)) = (None, record_resource (newResource e s2 acc) s2)"
    using c by (simp add: try_block_def srv s1_def setOutput_def generation_request_def)
  have nr: "newResource e s2 acc = newResource e s acc"
    by (subst s2) (simp add: newResource_def)
  have "handleGenerate e s = (Normal, (record_resource (newResource e s acc) s2)\<lparr>isGenerating := False\<rparr>)"
    by (simp add: handleGenerate_admitted [OF idle guard] tb nr)
  then show ?thesis
    by (simp add: acc s2 record_resource_def setSavedResources_def del: upt_Suc)
qed

lemma consume_keeps:
  "savedResources (snd (consume cs acc s)) = savedResources s"
  "wisian_history (snd (consume cs acc s)) = wisian_history s"
  "gate_trace (snd (consume cs acc s)) = gate_trace s"
  "apiStatus (snd (consume cs acc s)) = apiStatus s"
  "hasAccess (snd (consume cs acc s)) = hasAccess s"
  "requests (snd (consume cs acc s)) = requests s"
proof -
  obtain out pub where eq: "snd (consume cs acc s) = s\<lparr>output := out, published := pub\<rparr>"
    using consume_touches by blast
  show "savedResources (snd (consume cs acc s)) = savedResources s"
    "wisian_history (snd (consume cs acc s)) = wisian_history s"
    "gate_trace (snd (consume cs acc s)) = gate_trace s"
    "apiStatus (snd (consume cs acc s)) = apiStatus s"
    "hasAccess (snd (consume cs acc s)) = hasAccess s"
    "requests (snd (consume cs acc s)) = requests s"
    by (simp_all add: eq)
qed

lemma try_block_thrown: "fst (try_block e s) = thrown_by (service e)"
  by (simp add: try_block_def thrown_by_def split: response.splits stream_end.splits prod.splits)

lemma try_block_gate:
  "gate_trace (snd (try_block e s)) = gate_trace s"
proof (cases "service e")
  case (Stream cs ending)
  obtain acc s2 where c: "consume cs [] (s\<lparr>requests := requests s @ [generation_request s]\<rparr>) = (acc, s2)"
    by fastforce
  have "gate_trace s2 = gate_trace s"
    using consume_keeps(3) [of cs "[]" "s\<lparr>requests := requests s @ [generation_request s]\<rparr>"] c by simp
  then show ?thesis
    by (simp add: try_block_def Stream c record_resource_def setSavedResources_def split: stream_end.splits)
qed (simp_all add: try_block_def)

lemma try_block_failed_vault:
  assumes "thrown_by (service e) \<noteq> None"
  shows "savedResources (snd (try_block e s)) = savedResources s \<and>
         wisian_history (snd (try_block e s)) = wisian_history s"
proof (cases "service e")
  case (Stream cs ending)
  obtain acc s2 where c: "consume cs [] (s\<lparr>requests := requests s @ [generation_request s]\<rparr>) = (acc, s2)"
    by fastforce
  have "savedResources s2 = savedResources s" "wisian_history s2 = wisian_history s"
    using consume_keeps(1,2) [of cs "[]" "s\<lparr>requests := requests s @ [generation_request s]\<rparr>"] c by simp_all
  moreover obtain f where "ending = Faulted f"
    using assms Stream by (cases ending) (simp_all add: thrown_by_def)
  ultimately show ?thesis
    by (simp add: try_block_def Stream c)
qed (simp_all add: try_block_def)

lemma reset_key_selection_vault:
  "savedResources (snd (reset_key_selection e f s)) = savedResources s \<and>
   wisian_history (snd (reset_key_selection e f s)) = wisian_history s"
  by (simp add: reset_key_selection_def setApiStatus_def Let_def split: option.splits outcome.splits)

lemma catch_block_vault:
  "savedResources (snd (catch_block e f s)) = savedResources s \<and>
   wisian_history (snd (catch_block e f s)) = wisian_history s"
proof -
  let ?s1 = "s\<lparr>console := console s @ [GenerationError f]\<rparr>"
  obtain t s' where r: "reset_key_selection e f ?s1 = (t, s')" by fastforce
  have "savedResources s' = savedResources s \<and> wisian_history s' = wisian_history s"
    using reset_key_selection_vault [of e f ?s1] r by simp
  then show ?thesis
    by (cases t) (simp_all add: catch_block_def r setOutput_def)
qed

text \<open>The trace of the gate that the reset leaves behind.\<close>

lemma reset_key_selection_gate:
  assumes "message_includes f ''Requested entity was not found''"
  shows "gate_trace (snd (reset_key_selection e f s)) =
     gate_trace s @ ApiError #
       (case aistudio e of
          None \<Rightarrow> []
        | Some host \<Rightarrow> (case openSelectKey host of Normal \<Rightarrow> [Online] | Throws g \<Rightarrow> []))"
  using assms
  by (simp add: reset_key_selection_def setApiStatus_def Let_def split: option.splits outcome.splits)

lemma catch_block_gate:
  "gate_trace (snd (catch_block e f s)) =
   gate_trace (snd (reset_key_selection e f (s\<lparr>console := console s @ [GenerationError f]\<rparr>)))"
proof -
  let ?s1 = "s\<lparr>console := console s @ [GenerationError f]\<rparr>"
  obtain t s' where r: "reset_key_selection e f ?s1 = (t, s')" by fastforce
  show ?thesis
    by (cases t) (simp_all add: catch_block_def r setOutput_def)
qed

lemma handleGenerate_failed:
  assumes idle: "\<not> isGenerating s"
    and guard: "hasAccess s \<or> truthy_str (API_KEY e)"
    and thrown: "thrown_by (service e) = Some f"
  shows "snd (handleGenerate e s) =
     (snd (catch_block e f (snd (try_block e (setOutput [] (s\<lparr>isGenerating := True\<rparr>))))))\<lparr>isGenerating := False\<rparr>"
proof -
  let ?s1 = "setOutput [] (s\<lparr>isGenerating := True\<rparr>)"
  obtain s2 where t: "try_block e ?s1 = (Some f, s2)"
    using try_block_thrown [of e ?s1] thrown by (cases "try_block e ?s1") simp
  obtain r s3 where c: "catch_block e f s2 = (r, s3)" by fastforce
  show ?thesis
    by (cases r) (simp_all add: handleGenerate_admitted [OF idle guard] t c)
qed

lemma handleGenerate_keeps_vault:
  assumes "isGenerating s \<or> (\<not> hasAccess s \<and> \<not> truthy_str (API_KEY e)) \<or> thrown_by (service e) \<noteq> None"
  shows "savedResources (snd (handleGenerate e s)) = savedResources s \<and>
         wisian_history (snd (handleGenerate e s)) = wisian_history s"
proof (cases "isGenerating s \<or> (\<not> hasAccess s \<and> \<not> truthy_str (API_KEY e))")
  case True
  then show ?thesis by (auto simp: handleGenerate_def setOutput_def)
next
  case False
  then have idle: "\<not> isGenerating s" and guard: "hasAccess s \<or> truthy_str (API_KEY e)"
    by blast+
  from False assms obtain f where thrown: "thrown_by (service e) = Some f" by blast
  have "thrown_by (service e) \<noteq> None" using thrown by simp
  then show ?thesis
    by (simp add: handleGenerate_failed [OF idle guard thrown] catch_block_vault
        try_block_failed_vault setOutput_def)
qed

text \<open>The gate and the output after the \<open>catch\<close>.\<close>

lemma reset_key_selection_access:
  assumes "message_includes f ''Requested entity was not found''"
  shows "apiStatus (snd (reset_key_selection e f s)) =
       (case aistudio e of
          None \<Rightarrow> ApiError
        | Some host \<Rightarrow> (case openSelectKey host of Normal \<Rightarrow> Online | Throws g \<Rightarrow> ApiError)) \<and>
     hasAccess (snd (reset_key_selection e f s)) =
       (apiStatus (snd (reset_key_selection e f s)) = Online)"
  using assms
  by (simp add: reset_key_selection_def setApiStatus_def Let_def split: option.splits outcome.splits)

lemma catch_block_access:
  "apiStatus (snd (catch_block e f s)) =
     apiStatus (snd (reset_key_selection e f (s\<lparr>console := console s @ [GenerationError f]\<rparr>))) \<and>
   hasAccess (snd (catch_block e f s)) =
     hasAccess (snd (reset_key_selection e f (s\<lparr>console := console s @ [GenerationError f]\<rparr>)))"
proof -
  let ?s1 = "s\<lparr>console := console s @ [GenerationError f]\<rparr>"
  obtain t s' where r: "reset_key_selection e f ?s1 = (t, s')" by fastforce
  show ?thesis
    by (cases t) (simp_all add: catch_block_def r setOutput_def)
qed

lemma catch_block_message:
  assumes "\<not> message_includes f ''Requested entity was not found'' \<or> aistudio e = None \<or>
    (\<exists>host. aistudio e = Some host \<and> openSelectKey host = Normal)"
  shows "fst (catch_block e f s) = None \<and>
    output (snd (catch_block e f s)) =
      (if message_includes f ''API_KEY'' then authentication_failed else network_interruption)"
  using assms
  by (auto simp: catch_block_def reset_key_selection_def setApiStatus_def setOutput_def Let_def)

lemma failure_message_replaces_output:
  assumes idle: "\<not> isGenerating s"
    and guard: "hasAccess s \<or> truthy_str (API_KEY e)"
    and thrown: "thrown_by (service e) = Some f"
    and settled: "\<not> message_includes f ''Requested entity was not found'' \<or> aistudio e = None \<or>
      (\<exists>host. aistudio e = Some host \<and> openSelectKey host = Normal)"
  shows "fst (handleGenerate e s) = Normal \<and>
    output (snd (handleGenerate e s)) =
      (if message_includes f ''API_KEY'' then authentication_failed else network_interruption)"
proof -
  let ?s1 = "setOutput [] (s\<lparr>isGenerating := True\<rparr>)"
  obtain s2 where t: "try_block e ?s1 = (Some f, s2)"
    using try_block_thrown [of e ?s1] thrown by (cases "try_block e ?s1") simp
  obtain s3 where c: "catch_block e f s2 = (None, s3)"
    using catch_block_message [OF settled, of s2] by (cases "catch_block e f s2") simp
  have "output s3 = (if message_includes f ''API_KEY'' then authentication_failed else network_interruption)"
    using catch_block_message [OF settled, of s2] c by simp
  then show ?thesis
    by (simp add: handleGenerate_admitted [OF idle guard] t c)
qed

section \<open>Startup and the vault\<close>

lemma App_mount_returns: "fst (App_mount e stored) = Normal"
  by (simp add: App_mount_def load_history_def split: option.splits)

lemma App_mount_vault:
  "savedResources (snd (App_mount e stored)) =
     (case stored of Some (Encoded v) \<Rightarrow> v | Some (Malformed raw) \<Rightarrow> [] | None \<Rightarrow> [])"
  by (simp add: App_mount_def load_history_def initial_state_def checkAuth_def
      select_first_of_category_def save_history_def setApiStatus_def truthy_text_def
      JSON_parse_def Let_def
      split: option.splits stored_text.splits)

lemma App_mount_item:
  "wisian_history (snd (App_mount e stored)) =
     Some (Encoded (savedResources (snd (App_mount e stored))))"
  by (simp add: App_mount_def load_history_def save_history_def split: option.splits)

lemma App_mount_console:
  "console (snd (App_mount e (Some (Malformed raw)))) =
     (if raw = [] then [] else [ParseHistoryFailed])"
  by (simp add: App_mount_def load_history_def initial_state_def checkAuth_def
      select_first_of_category_def save_history_def setApiStatus_def truthy_text_def
      JSON_parse_def Let_def
      split: option.splits)

lemma App_mount_within_cap:
  assumes "stored_within_cap stored"
  shows "length (savedResources (snd (App_mount e stored))) \<le> 15 \<and>
         stored_within_cap (wisian_history (snd (App_mount e stored)))"
proof -
  have "length (savedResources (snd (App_mount e stored))) \<le> 15"
    using assms
    by (simp add: App_mount_vault stored_within_cap_def split: option.splits stored_text.splits)
  then show ?thesis
    by (simp add: App_mount_item stored_within_cap_def)
qed

lemma record_resource_length:
  "length (savedResources (record_resource r s)) = min 15 (length (savedResources s) + 1)"
  by (simp add: record_resource_def setSavedResources_def)

lemma record_resource_item:
  "wisian_history (record_resource r s) = Some (Encoded (savedResources (record_resource r s)))"
  by (simp add: record_resource_def setSavedResources_def)

lemma handleGenerate_within_cap:
  assumes "length (savedResources s) \<le> 15" and "stored_within_cap (wisian_history s)"
  shows "length (savedResources (snd (handleGenerate e s))) \<le> 15 \<and>
         stored_within_cap (wisian_history (snd (handleGenerate e s)))"
proof (cases "isGenerating s \<or> (\<not> hasAccess s \<and> \<not> truthy_str (API_KEY e)) \<or>
    thrown_by (service e) \<noteq> None")
  case True
  then show ?thesis
    using assms handleGenerate_keeps_vault [of s e] by simp
next
  case False
  then have idle: "\<not> isGenerating s" and guard: "hasAccess s \<or> truthy_str (API_KEY e)"
    and none: "thrown_by (service e) = None"
    by blast+
  from none obtain chunks where srv: "service e = Stream chunks Closed"
    by (cases "service e") (auto simp: thrown_by_def split: stream_end.splits)
  show ?thesis
    by (simp add: handleGenerate_completes [OF idle guard srv] stored_within_cap_def)
qed

lemma step_within_cap:
  assumes "length (savedResources s) \<le> 15" and "stored_within_cap (wisian_history s)"
  shows "length (savedResources (step ev s)) \<le> 15 \<and>
         stored_within_cap (wisian_history (step ev s))"
proof (cases ev)
  case (Generate e)
  then show ?thesis using handleGenerate_within_cap [OF assms] by simp
next
  case (Authenticate e)
  then show ?thesis
    using assms
    by (simp add: handleAuth_def setApiStatus_def split: option.splits outcome.splits)
next
  case (ClearHistory confirmed)
  then show ?thesis
    using assms by (simp add: clearHistory_def setSavedResources_def stored_within_cap_def)
next
  case (LoadFromHistory resource)
  then show ?thesis using assms by (simp add: loadFromHistory_def setOutput_def)
next
  case (SetPromptInput v)
  then show ?thesis using assms by simp
next
  case (SetActiveCategory c)
  then show ?thesis
    using assms by (simp add: select_first_of_category_def split: option.splits)
next
  case (SetSelectedTool t)
  then show ?thesis using assms by simp
next
  case (Relaunch e)
  then show ?thesis using App_mount_within_cap [OF assms(2)] by simp
qed

lemma run_within_cap:
  assumes "length (savedResources s) \<le> 15" and "stored_within_cap (wisian_history s)"
  shows "length (savedResources (run evs s)) \<le> 15"
  using assms
proof (induction evs arbitrary: s)
  case Nil
  then show ?case by simp
next
  case (Cons ev evs)
  have "length (savedResources (step ev s)) \<le> 15 \<and> stored_within_cap (wisian_history (step ev s))"
    using Cons.prems by (rule step_within_cap)
  then show ?case using Cons.IH by simp
qed

section \<open>The claims\<close>

text \<open>
  C1. When the stream delivers its increments and closes, the handler publishes the
  empty output it starts with and then, once per increment and in arrival order, the
  concatenation of the increments received so far; the final output is the
  concatenation of all of them; and the entry handed to the vault's record operation
  carries exactly that text, the selected tool's name and the active category's name.
\<close>

theorem streaming_publishes_and_records:
  assumes "\<not> isGenerating s"
    and "hasAccess s \<or> truthy_str (API_KEY e)"
    and "service e = Stream chunks Closed"
  shows "fst (handleGenerate e s) = Normal \<and>
    published (snd (handleGenerate e s)) =
      published s @ [] # map (\<lambda>k. concat (map chunk_text (take k chunks))) [1..<Suc (length chunks)] \<and>
    output (snd (handleGenerate e s)) = concat (map chunk_text chunks) \<and>
    savedResources (snd (handleGenerate e s)) =
      savedResources (record_resource
        \<lparr>res_id = toString (now_id e),
         toolName = tool_name (selectedTool s),
         categoryName = categoryName_of (activeCategory s),
         content = concat (map chunk_text chunks),
         timestamp = now_timestamp e\<rparr> s) \<and>
    (\<forall>c \<in> set TOOL_CATEGORIES.
       activeCategory s = cat_id c \<longrightarrow> categoryName_of (activeCategory s) = cat_name c)"
proof -
  have "\<forall>c \<in> set TOOL_CATEGORIES.
       activeCategory s = cat_id c \<longrightarrow> categoryName_of (activeCategory s) = cat_name c"
    by (simp add: category_name_found)
  then show ?thesis
    by (simp add: handleGenerate_completes [OF assms] record_resource_def
        setSavedResources_def newResource_def del: upt_Suc)
qed

theorem streaming_publishes_and_records_witness:
  "\<not> isGenerating ready_state \<and>
   (hasAccess ready_state \<or> truthy_str (API_KEY hello_env)) \<and>
   service hello_env = Stream [Chunk ''Hello '', Chunk ''World''] Closed \<and>
   published (snd (handleGenerate hello_env ready_state)) = [[], ''Hello '', ''Hello World''] \<and>
   output (snd (handleGenerate hello_env ready_state)) = ''Hello World'' \<and>
   map content (savedResources (snd (handleGenerate hello_env ready_state))) = [''Hello World''] \<and>
   map toolName (savedResources (snd (handleGenerate hello_env ready_state))) = [''Strategic Roadmap''] \<and>
   map categoryName (savedResources (snd (handleGenerate hello_env ready_state))) = [''Executive''] \<and>
   map res_id (savedResources (snd (handleGenerate hello_env ready_state))) = [''1700'']"
proof -
  have h1: "\<not> isGenerating ready_state"
    by (simp add: ready_state_def initial_state_def)
  have h2: "hasAccess ready_state \<or> truthy_str (API_KEY hello_env)"
    by (simp add: ready_state_def)
  have h3: "service hello_env = Stream [Chunk ''Hello '', Chunk ''World''] Closed"
    by (simp add: hello_env_def)
  have cat: "categoryName_of (activeCategory ready_state) = ''Executive''"
    by (simp add: ready_state_def initial_state_def categoryName_of_def TOOL_CATEGORIES_def)
  have tool: "tool_name (selectedTool ready_state) = ''Strategic Roadmap''"
    by (simp add: ready_state_def initial_state_def TOOLS_CONFIG_def strategy_toolkit_def)
  have vault: "savedResources ready_state = []" "published ready_state = []"
    by (simp_all add: ready_state_def initial_state_def)
  have stamp: "toString (now_id hello_env) = ''1700''"
    using toString_sample by (simp add: hello_env_def)
  show ?thesis
    using streaming_publishes_and_records [OF h1 h2 h3] h1 h2 h3
    by (simp add: cat tool vault stamp record_resource_def setSavedResources_def)
qed



text \<open>
  C3. A stream that faults with "Requested entity was not found." after one increment,
  on a host whose key selection is rejected: the handler's promise is rejected, no
  failure message is published, and the partial text stays as the output.
\<close>

theorem reauth_rejection_leaves_partial_output:
  "fst (handleGenerate rejecting_host_env ready_state) = Throws selection_cancelled \<and>
   published (snd (handleGenerate rejecting_host_env ready_state)) = [[], ''Hello ''] \<and>
   output (snd (handleGenerate rejecting_host_env ready_state)) = ''Hello '' \<and>
   output (snd (handleGenerate rejecting_host_env ready_state)) \<noteq> authentication_failed \<and>
   output (snd (handleGenerate rejecting_host_env ready_state)) \<noteq> network_interruption"
  by (simp add: handleGenerate_def try_block_def catch_block_def reset_key_selection_def
      rejecting_host_env_def ready_state_def initial_state_def truthy_str_def
      entity_not_found_def message_includes_def setOutput_def setApiStatus_def Let_def
      authentication_failed_def network_interruption_def)

text \<open>
  C4, as stated, fails right after loading: a stored array of 16 entries becomes the
  vault as it is.
\<close>

theorem oversized_snapshot_loaded_counterexample:
  "length (savedResources (snd (App_mount hello_env (Some (Encoded (replicate 16 sample_resource)))))) = 16"
  by (simp add: App_mount_vault)

text \<open>
  C4 (amended). Every record call puts the new entry first, followed by the first 14
  earlier entries in their order, so the length is min(15, priorLength + 1). Loading at
  startup takes the stored array as it is; when the item found at launch holds at most
  15 entries (or none, or unparsable text), the vault has at most 15 entries in every
  state the session reaches, relaunches included.
\<close>

theorem vault_newest_first_bounded:
  "savedResources (record_resource r s) = r # take 14 (savedResources s) \<and>
   length (savedResources (record_resource r s)) = min 15 (length (savedResources s) + 1) \<and>
   savedResources (snd (App_mount e (Some (Encoded v)))) = v \<and>
   (stored_within_cap stored \<longrightarrow>
      length (savedResources (run evs (snd (App_mount e stored)))) \<le> 15)"
proof -
  have "stored_within_cap stored \<longrightarrow>
      length (savedResources (run evs (snd (App_mount e stored)))) \<le> 15"
    using App_mount_within_cap [of stored e] run_within_cap by blast
  then show ?thesis
    by (simp add: record_resource_vault record_resource_length App_mount_vault)
qed

theorem vault_newest_first_bounded_witness:
  "stored_within_cap (Some (Encoded [sample_resource])) \<and>
   savedResources (record_resource sample_resource (ready_state\<lparr>savedResources := replicate 15 sample_resource\<rparr>))
     = sample_resource # replicate 14 sample_resource \<and>
   length (savedResources (run [Generate hello_env, Relaunch hello_env, Generate hello_env]
     (snd (App_mount hello_env (Some (Encoded [sample_resource])))))) \<le> 15"
proof -
  have h: "stored_within_cap (Some (Encoded [sample_resource]))"
    by (simp add: stored_within_cap_def)
  show ?thesis
    using vault_newest_first_bounded [of sample_resource
        "ready_state\<lparr>savedResources := replicate 15 sample_resource\<rparr>"
        hello_env "[]" "Some (Encoded [sample_resource])"
        "[Generate hello_env, Relaunch hello_env, Generate hello_env]"] h
    by simp
qed

text \<open>
  C5, as stated, fails for a context of white space only: a single space is not
  replaced by the default phrase but interpolated as it is.
\<close>

theorem whitespace_context_counterexample:
  "userPrompt strategy_toolkit '' '' =
     ''**Directive:** Execute the following task using the Strategic Roadmap module.'' @
     ''\<newline>        **Context:**  '' @
     ''\<newline>        **Core Task:** '' @ basePrompt strategy_toolkit
   \<and> \<not> includes_str (userPrompt strategy_toolkit '' '') ''Standard operating procedure.''"
proof -
  have t: "strategy_toolkit \<in> set TOOLS_CONFIG" by (simp add: TOOLS_CONFIG_def)
  have u: "userPrompt strategy_toolkit '' '' =
     ''**Directive:** Execute the following task using the Strategic Roadmap module.'' @
     ''\<newline>        **Context:**  '' @
     ''\<newline>        **Core Task:** '' @ basePrompt strategy_toolkit"
    by (simp add: userPrompt_catalog [OF t]) (simp add: strategy_toolkit_def)
  have "\<not> includes_str (userPrompt strategy_toolkit '' '') ''Standard operating procedure.''"
    by (subst u) (simp add: strategy_toolkit_def)
  with u show ?thesis by blast
qed

text \<open>
  C5 (amended). For every tool and user context, the user instruction is the directive
  naming the tool, then the context line, then the core-task line with the tool's base
  prompt. The context line carries the default "Standard operating procedure." exactly
  when the context is the empty string, and every other context verbatim, white space
  included. The final trim can only remove white space at the end of the base prompt;
  for the tools of the catalog the base prompt stands in full.
\<close>

theorem user_instruction_layout:
  "userPrompt tool ctx =
     ''**Directive:** Execute the following task using the '' @ tool_name tool @ '' module.'' @
     ''\<newline>        **Context:** '' @ (if ctx = [] then ''Standard operating procedure.'' else ctx) @
     ''\<newline>        **Core Task:**'' @ trimEnd ('' '' @ basePrompt tool @ ''\<newline>      '') \<and>
   (tool \<in> set TOOLS_CONFIG \<longrightarrow>
      userPrompt tool ctx =
        ''**Directive:** Execute the following task using the '' @ tool_name tool @ '' module.'' @
        ''\<newline>        **Context:** '' @ (if ctx = [] then ''Standard operating procedure.'' else ctx) @
        ''\<newline>        **Core Task:** '' @ basePrompt tool)"
  using userPrompt_layout [of tool ctx] userPrompt_catalog [of tool ctx] by blast

theorem user_instruction_layout_witness:
  "lesson_plan \<in> set TOOLS_CONFIG \<and>
   userPrompt lesson_plan ''Grade 7'' =
     ''**Directive:** Execute the following task using the Curriculum Architect module.'' @
     ''\<newline>        **Context:** Grade 7'' @
     ''\<newline>        **Core Task:** '' @ basePrompt lesson_plan \<and>
   userPrompt lesson_plan [] =
     ''**Directive:** Execute the following task using the Curriculum Architect module.'' @
     ''\<newline>        **Context:** Standard operating procedure.'' @
     ''\<newline>        **Core Task:** '' @ basePrompt lesson_plan"
proof -
  have t: "lesson_plan \<in> set TOOLS_CONFIG" by (simp add: TOOLS_CONFIG_def)
  have n: "tool_name lesson_plan = ''Curriculum Architect''" by (simp add: lesson_plan_def)
  note filled = user_instruction_layout [of lesson_plan "''Grade 7''", THEN conjunct2, THEN mp, OF t]
  note empty = user_instruction_layout [of lesson_plan "[]", THEN conjunct2, THEN mp, OF t]
  have "userPrompt lesson_plan ''Grade 7'' =
     ''**Directive:** Execute the following task using the Curriculum Architect module.'' @
     ''\<newline>        **Context:** Grade 7'' @
     ''\<newline>        **Core Task:** '' @ basePrompt lesson_plan"
    by (subst filled) (simp add: n)
  moreover have "userPrompt lesson_plan [] =
     ''**Directive:** Execute the following task using the Curriculum Architect module.'' @
     ''\<newline>        **Context:** Standard operating procedure.'' @
     ''\<newline>        **Core Task:** '' @ basePrompt lesson_plan"
    by (subst empty) (simp add: n)
  ultimately show ?thesis using t by blast
qed

text \<open>
  C6. The catalog has 7 tools, and for each of them the model identifier is
  "gemini-3-pro-preview" exactly when its tier is pro and "gemini-3-flash-preview"
  exactly when its tier is flash.
\<close>

theorem model_identifier_by_tier:
  "length TOOLS_CONFIG = 7 \<and>
   (\<forall>t \<in> set TOOLS_CONFIG.
      (modelName t = ''gemini-3-pro-preview'' \<longleftrightarrow> modelTier t = Pro) \<and>
      (modelName t = ''gemini-3-flash-preview'' \<longleftrightarrow> modelTier t = Flash))"
proof -
  have "(modelName t = ''gemini-3-pro-preview'' \<longleftrightarrow> modelTier t = Pro) \<and>
        (modelName t = ''gemini-3-flash-preview'' \<longleftrightarrow> modelTier t = Flash)" for t
    by (cases "modelTier t") (simp_all add: modelName_def)
  moreover have "length TOOLS_CONFIG = 7"
    by (simp add: TOOLS_CONFIG_def)
  ultimately show ?thesis by blast
qed

theorem model_identifier_by_tier_witness:
  "assessment_gen \<in> set TOOLS_CONFIG \<and> modelTier assessment_gen = Flash \<and>
   modelName assessment_gen = ''gemini-3-flash-preview'' \<and>
   fundraising_pro \<in> set TOOLS_CONFIG \<and> modelTier fundraising_pro = Pro \<and>
   modelName fundraising_pro = ''gemini-3-pro-preview''"
proof -
  have a: "assessment_gen \<in> set TOOLS_CONFIG" and f: "fundraising_pro \<in> set TOOLS_CONFIG"
    by (simp_all add: TOOLS_CONFIG_def)
  have ta: "modelTier assessment_gen = Flash" by (simp add: assessment_gen_def)
  have tf: "modelTier fundraising_pro = Pro" by (simp add: fundraising_pro_def)
  from model_identifier_by_tier a ta
  have "modelName assessment_gen = ''gemini-3-flash-preview''" by blast
  moreover from model_identifier_by_tier f tf
  have "modelName fundraising_pro = ''gemini-3-pro-preview''" by blast
  ultimately show ?thesis using a f ta tf by blast
qed

text \<open>
  C7. When the attempt fails with a message containing "Requested entity was not
  found", the gate is set to Error; if the host has the credential capability and its
  selection flow returns, the gate is then set to Online without any check of the
  selection. The gate's trace for the attempt is Error followed by Online in that case
  and Error alone otherwise, whatever else the message contains; the gate ends in the
  last state of the trace and \<open>hasAccess\<close> agrees with it.
\<close>

theorem stale_credential_gate_trace:
  assumes "\<not> isGenerating s"
    and "hasAccess s \<or> truthy_str (API_KEY e)"
    and "thrown_by (service e) = Some f"
    and "message_includes f ''Requested entity was not found''"
  shows "gate_trace (snd (handleGenerate e s)) =
       gate_trace s @ ApiError #
         (case aistudio e of
            None \<Rightarrow> []
          | Some host \<Rightarrow> (case openSelectKey host of Normal \<Rightarrow> [Online] | Throws g \<Rightarrow> [])) \<and>
     apiStatus (snd (handleGenerate e s)) =
       (case aistudio e of
          None \<Rightarrow> ApiError
        | Some host \<Rightarrow> (case openSelectKey host of Normal \<Rightarrow> Online | Throws g \<Rightarrow> ApiError)) \<and>
     hasAccess (snd (handleGenerate e s)) = (apiStatus (snd (handleGenerate e s)) = Online)"
  by (simp add: handleGenerate_failed [OF assms(1,2,3)] catch_block_gate catch_block_access
      reset_key_selection_gate [OF assms(4)] reset_key_selection_access [OF assms(4)]
      try_block_gate setOutput_def)

theorem stale_credential_gate_trace_witness:
  "\<not> isGenerating ready_state \<and>
   (hasAccess ready_state \<or> truthy_str (API_KEY stale_key_env)) \<and>
   thrown_by (service stale_key_env) = Some entity_not_found \<and>
   message_includes entity_not_found ''Requested entity was not found'' \<and>
   gate_trace (snd (handleGenerate stale_key_env ready_state)) = [ApiError, Online] \<and>
   apiStatus (snd (handleGenerate stale_key_env ready_state)) = Online \<and>
   hasAccess (snd (handleGenerate stale_key_env ready_state))"
proof -
  have h1: "\<not> isGenerating ready_state"
    by (simp add: ready_state_def initial_state_def)
  have h2: "hasAccess ready_state \<or> truthy_str (API_KEY stale_key_env)"
    by (simp add: ready_state_def)
  have h3: "thrown_by (service stale_key_env) = Some entity_not_found"
    by (simp add: stale_key_env_def thrown_by_def)
  have h4: "message_includes entity_not_found ''Requested entity was not found''"
    by (simp add: entity_not_found_def message_includes_def)
  have g: "gate_trace ready_state = []"
    by (simp add: ready_state_def initial_state_def)
  show ?thesis
    using stale_credential_gate_trace [OF h1 h2 h3 h4] h1 h2 h3 h4
    by (simp add: g stale_key_env_def)
qed

text \<open>
  C8, as stated, fails for the empty text: it is not valid JSON, yet the loader skips
  it without parsing, so nothing is logged.
\<close>

theorem empty_snapshot_not_logged_counterexample:
  "JSON_parse (Malformed []) = None \<and>
   console (snd (App_mount no_key_env (Some (Malformed [])))) = []"
  by (simp add: JSON_parse_def App_mount_console)

text \<open>
  C8 (amended). For every stored text that is not valid JSON, startup returns normally
  with an empty vault; the parse failure is logged to the console and goes nowhere
  else, except that the empty text is skipped without parsing and logs nothing.
\<close>

theorem malformed_snapshot_discarded:
  "JSON_parse (Malformed raw) = None \<and>
   fst (App_mount e (Some (Malformed raw))) = Normal \<and>
   savedResources (snd (App_mount e (Some (Malformed raw)))) = [] \<and>
   console (snd (App_mount e (Some (Malformed raw)))) =
     (if raw = [] then [] else [ParseHistoryFailed])"
  by (simp add: JSON_parse_def App_mount_returns App_mount_vault App_mount_console)

theorem malformed_snapshot_discarded_witness:
  "fst (App_mount no_key_env (Some (Malformed ''[{''))) = Normal \<and>
   savedResources (snd (App_mount no_key_env (Some (Malformed ''[{'')))) = [] \<and>
   console (snd (App_mount no_key_env (Some (Malformed ''[{'')))) = [ParseHistoryFailed]"
  using malformed_snapshot_discarded [of "''[{''" no_key_env] by simp

text \<open>
  C9. While a generation is in progress, invoking the handler returns normally and
  leaves the whole state as it is: output, vault, stored item, gate, indicator, and the
  lists of published outputs and issued requests.
\<close>

theorem in_progress_noop:
  "isGenerating s \<Longrightarrow> handleGenerate e s = (Normal, s)"
  by (simp add: handleGenerate_def)

theorem in_progress_noop_witness:
  "isGenerating busy_state \<and> handleGenerate hello_env busy_state = (Normal, busy_state)"
proof -
  have h: "isGenerating busy_state" by (simp add: busy_state_def)
  show ?thesis using in_progress_noop [OF h, of hello_env] h by simp
qed

text \<open>
  C10. An attempt that does not complete naturally (it is ignored, stopped by the
  credential guard, or something is thrown while issuing or streaming) leaves the vault
  and the stored item exactly as they were.
\<close>

theorem failed_attempt_keeps_vault:
  assumes "isGenerating s \<or> (\<not> hasAccess s \<and> \<not> truthy_str (API_KEY e)) \<or>
    thrown_by (service e) \<noteq> None"
  shows "savedResources (snd (handleGenerate e s)) = savedResources s \<and>
         wisian_history (snd (handleGenerate e s)) = wisian_history s"
  using assms by (rule handleGenerate_keeps_vault)

theorem failed_attempt_keeps_vault_witness:
  "thrown_by (service rejecting_host_env) \<noteq> None \<and>
   savedResources (snd (handleGenerate rejecting_host_env
      (record_resource sample_resource ready_state))) = [sample_resource] \<and>
   wisian_history (snd (handleGenerate rejecting_host_env
      (record_resource sample_resource ready_state))) = Some (Encoded [sample_resource])"
proof -
  have h: "thrown_by (service rejecting_host_env) \<noteq> None"
    by (simp add: rejecting_host_env_def thrown_by_def)
  have v: "savedResources (record_resource sample_resource ready_state) = [sample_resource]"
    "wisian_history (record_resource sample_resource ready_state) = Some (Encoded [sample_resource])"
    by (simp_all add: record_resource_def setSavedResources_def ready_state_def initial_state_def)
  from h have "isGenerating (record_resource sample_resource ready_state) \<or>
      (\<not> hasAccess (record_resource sample_resource ready_state) \<and>
       \<not> truthy_str (API_KEY rejecting_host_env)) \<or>
      thrown_by (service rejecting_host_env) \<noteq> None"
    by blast
  from failed_attempt_keeps_vault [OF this] h show ?thesis
    by (simp add: v)
qed

end
